theory Spec2Isabelle
  imports Complex_Main "HOL-Library.Sublist"
begin

section \<open>JavaScript numbers\<close>

text \<open>
  Every quantity of the projection engine is a JavaScript number. The model keeps the
  four kinds of value a number can be: a finite value, the two infinities and NaN.
  Finite values are real numbers and arithmetic on them is exact: rounding, overflow
  to an infinity and the sign of zero are not represented. A zero divisor behaves as
  the positive zero (the only divisor of the engine that can vanish is \<open>1 + r\<close>, and
  \<open>1 + (-1)\<close> is the positive zero).
\<close>

datatype jsnum = Fin real | PInf | NInf | NaN

text \<open>The infinity with the sign of \<open>s\<close>; NaN when \<open>s\<close> is zero.\<close>

definition signed_inf :: "real \<Rightarrow> jsnum" where
  "signed_inf s = (if 0 < s then PInf else if s < 0 then NInf else NaN)"

fun jadd :: "jsnum \<Rightarrow> jsnum \<Rightarrow> jsnum" where
  "jadd NaN _ = NaN"
| "jadd _ NaN = NaN"
| "jadd (Fin a) (Fin b) = Fin (a + b)"
| "jadd PInf NInf = NaN"
| "jadd NInf PInf = NaN"
| "jadd PInf _ = PInf"
| "jadd _ PInf = PInf"
| "jadd NInf _ = NInf"
| "jadd _ NInf = NInf"

fun jneg :: "jsnum \<Rightarrow> jsnum" where
  "jneg (Fin a) = Fin (- a)"
| "jneg PInf = NInf"
| "jneg NInf = PInf"
| "jneg NaN = NaN"

definition jsub :: "jsnum \<Rightarrow> jsnum \<Rightarrow> jsnum" where
  "jsub a b = jadd a (jneg b)"

fun jmul :: "jsnum \<Rightarrow> jsnum \<Rightarrow> jsnum" where
  "jmul NaN _ = NaN"
| "jmul _ NaN = NaN"
| "jmul (Fin a) (Fin b) = Fin (a * b)"
| "jmul (Fin a) PInf = signed_inf a"
| "jmul (Fin a) NInf = signed_inf (- a)"
| "jmul PInf (Fin b) = signed_inf b"
| "jmul NInf (Fin b) = signed_inf (- b)"
| "jmul PInf PInf = PInf"
| "jmul PInf NInf = NInf"
| "jmul NInf PInf = NInf"
| "jmul NInf NInf = PInf"

fun jdiv :: "jsnum \<Rightarrow> jsnum \<Rightarrow> jsnum" where
  "jdiv NaN _ = NaN"
| "jdiv _ NaN = NaN"
| "jdiv (Fin a) (Fin b) = (if b = 0 then signed_inf a else Fin (a / b))"
| "jdiv (Fin a) _ = Fin 0"
| "jdiv PInf (Fin b) = (if b < 0 then NInf else PInf)"
| "jdiv NInf (Fin b) = (if b < 0 then PInf else NInf)"
| "jdiv _ _ = NaN"

fun jabs :: "jsnum \<Rightarrow> jsnum" where
  "jabs (Fin a) = Fin \<bar>a\<bar>"
| "jabs PInf = PInf"
| "jabs NInf = PInf"
| "jabs NaN = NaN"

text \<open>The comparisons \<open><\<close> and \<open><=\<close>: false as soon as an operand is NaN.\<close>

fun jlt :: "jsnum \<Rightarrow> jsnum \<Rightarrow> bool" where
  "jlt NaN _ = False"
| "jlt _ NaN = False"
| "jlt (Fin a) (Fin b) = (a < b)"
| "jlt _ NInf = False"
| "jlt PInf _ = False"
| "jlt _ _ = True"

fun jle :: "jsnum \<Rightarrow> jsnum \<Rightarrow> bool" where
  "jle NaN _ = False"
| "jle _ NaN = False"
| "jle (Fin a) (Fin b) = (a \<le> b)"
| "jle NInf _ = True"
| "jle _ PInf = True"
| "jle _ _ = False"

text \<open>\<open>Math.max\<close> of two numbers: NaN as soon as an argument is NaN.\<close>

fun jmax :: "jsnum \<Rightarrow> jsnum \<Rightarrow> jsnum" where
  "jmax NaN _ = NaN"
| "jmax _ NaN = NaN"
| "jmax a b = (if jlt a b then b else a)"

text \<open>
  \<open>Math.pow\<close>, case by case as the language standard lists them. A finite base with a
  finite exponent: a whole exponent is repeated multiplication (or its reciprocal), a
  negative base with a fractional exponent is NaN, a positive base with a fractional
  exponent is the real power.
\<close>

definition is_whole :: "real \<Rightarrow> bool" where
  "is_whole y = (real_of_int \<lfloor>y\<rfloor> = y)"

definition fin_pow :: "real \<Rightarrow> real \<Rightarrow> jsnum" where
  "fin_pow x y =
     (if is_whole y then
        (if 0 < y then Fin (x ^ nat \<lfloor>y\<rfloor>)
         else if x = 0 then PInf
         else Fin (1 / x ^ nat \<lfloor>- y\<rfloor>))
      else if x < 0 then NaN
      else if x = 0 then (if 0 < y then Fin 0 else PInf)
      else Fin (x powr y))"

fun jpow :: "jsnum \<Rightarrow> jsnum \<Rightarrow> jsnum" where
  "jpow _ NaN = NaN"
| "jpow b (Fin y) =
     (if y = 0 then Fin 1
      else case b of
        NaN \<Rightarrow> NaN
      | PInf \<Rightarrow> (if 0 < y then PInf else Fin 0)
      | NInf \<Rightarrow> (if 0 < y then (if is_whole y \<and> odd \<lfloor>y\<rfloor> then NInf else PInf) else Fin 0)
      | Fin x \<Rightarrow> fin_pow x y)"
| "jpow b PInf =
     (case b of
        NaN \<Rightarrow> NaN
      | Fin x \<Rightarrow> (if 1 < \<bar>x\<bar> then PInf else if \<bar>x\<bar> = 1 then NaN else Fin 0)
      | _ \<Rightarrow> PInf)"
| "jpow b NInf =
     (case b of
        NaN \<Rightarrow> NaN
      | Fin x \<Rightarrow> (if 1 < \<bar>x\<bar> then Fin 0 else if \<bar>x\<bar> = 1 then NaN else PInf)
      | _ \<Rightarrow> Fin 0)"

section \<open>The annuity solver\<close>

datatype timing = End | Begin

text \<open>
  The solver and the two depletion simulators read the same in both source files of
  the component. Their parameter object is modelled by one argument for each of its
  fields, in the order of the source.

  \<open>presentValue\<close> is the local variable \<open>pv\<close> of \<open>requiredPrincipalByFormula\<close> as it
  stands at the return statement: the closed form (or its limit when \<open>r\<close> and \<open>g\<close> are
  within \<open>1e-9\<close>), multiplied by \<open>1 + r\<close> for the timing \<open>begin\<close>.
\<close>

definition presentValue :: "jsnum \<Rightarrow> jsnum \<Rightarrow> jsnum \<Rightarrow> jsnum \<Rightarrow> timing \<Rightarrow> jsnum" where
  "presentValue firstWithdrawal r g N tm =
     (let pv = (if jlt (jabs (jsub r g)) (Fin (1 / 10 ^ 9))
                then jdiv (jmul firstWithdrawal N) (jadd (Fin 1) r)
                else let ratio = jpow (jdiv (jadd (Fin 1) g) (jadd (Fin 1) r)) N
                     in jdiv (jmul firstWithdrawal (jsub (Fin 1) ratio)) (jsub r g))
      in if tm = Begin then jmul pv (jadd (Fin 1) r) else pv)"

definition requiredPrincipalByFormula ::
    "jsnum \<Rightarrow> jsnum \<Rightarrow> jsnum \<Rightarrow> jsnum \<Rightarrow> timing \<Rightarrow> jsnum" where
  "requiredPrincipalByFormula firstWithdrawal r g N tm =
     (if jle N (Fin 0) then Fin 0
      else jmax (Fin 0) (presentValue firstWithdrawal r g N tm))"

text \<open>
  The caller of the solver (the memoised \<open>neededPrincipal\<close> of the component) guards
  the call: outside the mode \<open>years\<close>, or with a rate or horizon that is not finite, or
  with a horizon that is not positive, it yields 0 without calling the solver.
\<close>

datatype mode = ModeYears | ModePrincipal | ModeCompound



section \<open>The depletion simulator\<close>

text \<open>
  One projection record per simulated period. The loop counters and loop bounds
  (\<open>years\<close>, \<open>maxYears\<close>) are whole numbers, as the data model has them.
\<close>

record row =
  year :: int
  expense :: jsnum
  growth :: jsnum
  endPrincipal :: jsnum

text \<open>
  The body of the loop, which \<open>simulateCashflow\<close> and \<open>simulateUntilDepleted\<close> share
  word for word (the variable \<open>prin\<close> is its \<open>principal\<close>): the record of period \<open>y\<close>
  from the principal that period starts with.
  Its \<open>endPrincipal\<close> is the principal the next period starts with.
\<close>

definition period_update :: "jsnum \<Rightarrow> jsnum \<Rightarrow> jsnum \<Rightarrow> timing \<Rightarrow> int \<Rightarrow> jsnum \<Rightarrow> row" where
  "period_update expense0 r g tm y prin =
     (let expense = jmul expense0 (jpow (jadd (Fin 1) g) (Fin (real_of_int (y - 1))))
      in if tm = End then
           (let growth = jmul prin r;
                principal1 = jsub (jadd prin growth) expense
            in \<lparr>year = y, expense = expense, growth = growth, endPrincipal = principal1\<rparr>)
         else
           (let principal1 = jsub prin expense;
                growth = jmul principal1 r;
                principal2 = jadd principal1 growth
            in \<lparr>year = y, expense = expense, growth = growth, endPrincipal = principal2\<rparr>))"



function depleted_loop ::
    "int \<Rightarrow> jsnum \<Rightarrow> jsnum \<Rightarrow> jsnum \<Rightarrow> timing \<Rightarrow> int \<Rightarrow> jsnum \<Rightarrow> row list \<Rightarrow> row list" where
  "depleted_loop maxYears expense0 r g tm y prin rows =
     (if y < maxYears \<and> jlt (Fin 0) prin then
        (let y1 = y + 1;
             rec = period_update expense0 r g tm y1 prin
         in depleted_loop maxYears expense0 r g tm y1 (endPrincipal rec) (rows @ [rec]))
      else rows)"
  by pat_completeness auto
termination
  by (relation "measure (\<lambda>(maxYears, expense0, r, g, tm, y, prin, rows). nat (maxYears - y))")
     auto

text \<open>The parameter \<open>maxYears\<close> is optional and defaults to 200.\<close>

definition simulateUntilDepleted ::
    "jsnum \<Rightarrow> jsnum \<Rightarrow> jsnum \<Rightarrow> jsnum \<Rightarrow> timing \<Rightarrow> int option \<Rightarrow> row list" where
  "simulateUntilDepleted initialPrincipal expense0 r g tm maxYears =
     depleted_loop (case maxYears of None \<Rightarrow> 200 | Some m \<Rightarrow> m) expense0 r g tm 0
       initialPrincipal []"

section \<open>The accumulation simulator\<close>




section \<open>CSV export\<close>

text \<open>
  A cell is a string or a number. The numbers the component exports are period
  numbers and amounts rounded to whole units, so a numeric cell is an integer; it is
  printed in decimal, as the language prints an integer of magnitude below \<open>10^21\<close>.
\<close>

datatype cell = CStr string | CNum int

definition dquote :: char where
  "dquote = CHR 0x22"

definition newline :: char where
  "newline = CHR 0x0A"

fun digits :: "nat \<Rightarrow> string" where
  "digits n = (if n < 10 then [''0123456789'' ! n]
               else digits (n div 10) @ [''0123456789'' ! (n mod 10)])"

definition number_to_string :: "int \<Rightarrow> string" where
  "number_to_string n = (if n < 0 then CHR ''-'' # digits (nat (- n)) else digits (nat n))"

text \<open>\<open>Array.prototype.join\<close>.\<close>

fun join :: "string \<Rightarrow> string list \<Rightarrow> string" where
  "join sep [] = []"
| "join sep [x] = x"
| "join sep (x # y # ys) = x @ sep @ join sep (y # ys)"

text \<open>\<open>s.replace(/"/g, '""')\<close>: every double quote is replaced by two.\<close>

fun replace_quotes :: "string \<Rightarrow> string" where
  "replace_quotes [] = []"
| "replace_quotes (c # cs) =
     (if c = dquote then dquote # dquote # replace_quotes cs else c # replace_quotes cs)"

text \<open>The text of a cell inside a template literal.\<close>

fun cell_text :: "cell \<Rightarrow> string" where
  "cell_text (CStr s) = s"
| "cell_text (CNum n) = number_to_string n"

text \<open>The local function \<open>process\<close>, applied to every row but the first.\<close>

definition process :: "cell list \<Rightarrow> string" where
  "process r =
     join '','' (map (\<lambda>c. case c of
                        CStr s \<Rightarrow> [dquote] @ replace_quotes s @ [dquote]
                      | CNum n \<Rightarrow> number_to_string n) r)"

text \<open>
  \<open>buildCSV\<close> as the component has it. The argument \<open>None\<close> stands for a null
  or undefined \<open>rows\<close>.
\<close>

definition buildCSV :: "cell list list option \<Rightarrow> string" where
  "buildCSV rows =
     (case rows of
        None \<Rightarrow> []
      | Some [] \<Rightarrow> []
      | Some (header # rest) \<Rightarrow>
          join [newline]
            (join '','' (map (\<lambda>h. [dquote] @ cell_text h @ [dquote]) header) # map process rest))"

text \<open>
  The variant of \<open>src/App.tsx\<close> has no guard: reading \<open>rows[0]\<close> of a null or
  undefined value, or calling \<open>map\<close> on the undefined first row of an empty list,
  throws a TypeError.
\<close>

datatype js_error = TypeError

definition buildCSV_App :: "cell list list option \<Rightarrow> js_error + string" where
  "buildCSV_App rows =
     (case rows of
        None \<Rightarrow> Inl TypeError
      | Some [] \<Rightarrow> Inl TypeError
      | Some (header # rest) \<Rightarrow>
          Inr (join [newline]
            (join '','' (map (\<lambda>h. [dquote] @ cell_text h @ [dquote]) header) # map process rest)))"





declare depleted_loop.simps [simp del]
declare digits.simps [simp del]

section \<open>Arithmetic on finite numbers\<close>

lemma jsub_Fin [simp]: "jsub (Fin a) (Fin b) = Fin (a - b)"
  by (simp add: jsub_def)

lemma jmax_Fin [simp]: "jmax (Fin a) (Fin b) = Fin (max a b)"
  by (simp add: max_def)

lemma is_whole_of_int [simp]: "is_whole (real_of_int k)"
  by (simp add: is_whole_def)




lemma not_pos_le_zero: "jle p (Fin 0) \<Longrightarrow> \<not> jlt (Fin 0) p"
  by (cases p) auto

section \<open>Properties of the annuity solver\<close>

text \<open>
  Claim C2 (non-negativity of the solver), as the code has it: for every input, finite
  or not, the value returned by \<open>requiredPrincipalByFormula\<close> is never negative: it is
  NaN or it is at least 0. The value NaN is possible for finite inputs, since
  \<open>Math.max(0, NaN)\<close> is NaN.
\<close>

theorem solver_never_negative:
  "requiredPrincipalByFormula w r g n t = NaN \<or>
   jle (Fin 0) (requiredPrincipalByFormula w r g n t)"
  by (cases "presentValue w r g n t") (simp_all add: requiredPrincipalByFormula_def)

theorem solver_never_negative_witness:
  "requiredPrincipalByFormula (Fin (- 5)) (Fin (7 / 100)) (Fin (3 / 100)) (Fin 2) End = Fin 0 \<and>
   jle (Fin 0) (requiredPrincipalByFormula (Fin (- 5)) (Fin (7 / 100)) (Fin (3 / 100)) (Fin 2) End)"
proof -
  have v: "requiredPrincipalByFormula (Fin (- 5)) (Fin (7 / 100)) (Fin (3 / 100)) (Fin 2) End = Fin 0"
    by (simp add: requiredPrincipalByFormula_def presentValue_def fin_pow_def is_whole_def
        power_divide)
  show ?thesis
    using solver_never_negative[of "Fin (- 5)" "Fin (7 / 100)" "Fin (3 / 100)" "Fin 2" End]
    by (simp add: v)
qed

text \<open>
  Claim C2 as stated fails: with a first withdrawal of 0, \<open>r = g = -1\<close> and one period
  the solver computes \<open>0 / 0\<close>, and the maximum of 0 and NaN is NaN, which is not at
  least 0.
\<close>

theorem solver_nan_at_total_loss:
  "\<not> jle (Fin 0) (requiredPrincipalByFormula (Fin 0) (Fin (- 1)) (Fin (- 1)) (Fin 1) End)"
  by (simp add: requiredPrincipalByFormula_def presentValue_def signed_inf_def)








section \<open>Consistency of the solver and the fixed-horizon simulator\<close>












section \<open>Properties of the run to depletion\<close>

lemma depleted_loop_length:
  "length (depleted_loop mx e r g t y prin rows) \<le> length rows + nat (mx - y)"
proof (induction mx e r g t y prin rows rule: depleted_loop.induct)
  case (1 mx e r g t y prin rows)
  show ?case
  proof (cases "y < mx \<and> jlt (Fin 0) prin")
    case True
    then have a: "Suc (nat (mx - (y + 1))) = nat (mx - y)" by linarith
    have "length (depleted_loop mx e r g t y prin rows) \<le> length rows + Suc (nat (mx - (y + 1)))"
      using True "1.IH"[OF True refl refl] by (subst depleted_loop.simps) (simp add: Let_def)
    then show ?thesis unfolding a .
  next
    case False
    then show ?thesis by (subst depleted_loop.simps) auto
  qed
qed

lemma depleted_loop_stop:
  "\<not> jlt (Fin 0) prin \<Longrightarrow> depleted_loop mx e r g t y prin rows = rows"
  by (subst depleted_loop.simps) simp

text \<open>
  Claim C3 (bound of the run to depletion and zero-principal boundary): for every
  input, \<open>simulateUntilDepleted\<close> produces at most \<open>maxYears\<close> records (200 when the
  parameter is left out), and with \<open>initialPrincipal \<le> 0\<close> it produces no record.
\<close>

theorem depletion_record_bound:
  "length (simulateUntilDepleted p e r g t mx) \<le> nat (case mx of None \<Rightarrow> 200 | Some m \<Rightarrow> m) \<and>
   (jle p (Fin 0) \<longrightarrow> simulateUntilDepleted p e r g t mx = [])"
  using depleted_loop_length[of "case mx of None \<Rightarrow> 200 | Some m \<Rightarrow> m" e r g t 0 p "[]"]
  by (simp add: simulateUntilDepleted_def depleted_loop_stop not_pos_le_zero)

theorem depletion_record_bound_witness:
  "jle (Fin 0) (Fin 0) \<and>
   simulateUntilDepleted (Fin 0) (Fin 60) (Fin 0) (Fin 0) End None = [] \<and>
   length (simulateUntilDepleted (Fin 0) (Fin 60) (Fin 0) (Fin 0) End None) \<le> nat 200 \<and>
   length (simulateUntilDepleted (Fin 100) (Fin 1) (Fin 1) (Fin 0) End (Some 3)) = 3"
proof -
  have "length (simulateUntilDepleted (Fin 100) (Fin 1) (Fin 1) (Fin 0) End (Some 3)) = 3"
    by (simp add: simulateUntilDepleted_def depleted_loop.simps period_update_def
        fin_pow_def is_whole_def Let_def)
  then show ?thesis
    using depletion_record_bound[of "Fin 0" "Fin 60" "Fin 0" "Fin 0" End None] by simp
qed








section \<open>Properties of the accumulation simulator\<close>










section \<open>Properties of the CSV export\<close>









text \<open>
  Claim C10 (empty input): \<open>buildCSV\<close> of the component returns the empty string for an
  empty list of rows and for a null or undefined argument; the variant of
  \<open>src/App.tsx\<close>, which has no guard, fails on both.
\<close>

theorem csv_empty_input:
  "buildCSV (Some []) = [] \<and> buildCSV None = [] \<and>
   buildCSV_App (Some []) = Inl TypeError \<and> buildCSV_App None = Inl TypeError"
  by (simp add: buildCSV_def buildCSV_App_def)

end
